theory Spec2Isabelle
  imports Main "HOL-Library.Sublist"
begin

section \<open>The PBSPro launcher of SmartSim (smartsim/launcher/pbs/pbsLauncher.py)\<close>

text \<open>
  The launcher is a Python class whose methods mutate two members (the task manager and
  the step mapping) and shell out to the scheduler (\<open>qsub\<close> through the task manager,
  \<open>qstat\<close>, \<open>qdel\<close>). The embedding passes the state explicitly, turns every
  \<open>raise\<close> into an \<open>Inl\<close> result that is returned together with the state reached
  when the exception left the method, and keeps a chronological log of every call
  that leaves the launcher. The collaborators that answer those calls are fields of an
  environment record; each answer may depend on the whole log so far, so a scheduler
  that answers differently on its third query is an ordinary environment.
\<close>

subsection \<open>Python values\<close>

text \<open>Exceptions that \<open>pbsLauncher.py\<close> raises or lets through, with their message.\<close>

datatype error =
    LauncherError string
  | SSConfigError string
  | SSUnsupportedError string
  | TypeError string
  | KeyError string
  | OSError string
  | IndexError

text \<open>
  A Python \<open>str\<close> is the list of the bytes of its UTF-8 encoding, so that the empty
  \<open>str\<close> is the empty list and concatenation is \<open>@\<close>. Truthiness of an optional
  string: \<open>None\<close> and \<open>""\<close> are false.
\<close>

fun truthy :: "string option \<Rightarrow> bool" where
  "truthy None = False"
| "truthy (Some s) = (s \<noteq> [])"

text \<open>\<open>str(x)\<close> of an optional string.\<close>

fun str :: "string option \<Rightarrow> string" where
  "str None = ''None''"
| "str (Some s) = s"

text \<open>
  \<open>str.strip()\<close> removes from both ends the characters for which \<open>str.isspace\<close>
  holds: U+0009 to U+000D, U+001C to U+0020, U+0085, U+00A0, U+1680, U+2000 to U+200A,
  U+2028, U+2029, U+202F, U+205F and U+3000. \<open>whitespace\<close> lists their UTF-8
  encodings. No encoding is a proper part of another character's encoding, so a
  whitespace encoding at either end of a string is a whitespace character there.
\<close>

definition whitespace :: "string list" where
  "whitespace =
     map (\<lambda>c. [c]) [CHR 0x09, CHR 0x0A, CHR 0x0B, CHR 0x0C, CHR 0x0D,
                     CHR 0x1C, CHR 0x1D, CHR 0x1E, CHR 0x1F, CHR 0x20]
     @ [[CHR 0xC2, CHR 0x85], [CHR 0xC2, CHR 0xA0], [CHR 0xE1, CHR 0x9A, CHR 0x80]]
     @ map (\<lambda>c. [CHR 0xE2, CHR 0x80, c])
         [CHR 0x80, CHR 0x81, CHR 0x82, CHR 0x83, CHR 0x84, CHR 0x85, CHR 0x86, CHR 0x87,
          CHR 0x88, CHR 0x89, CHR 0x8A, CHR 0xA8, CHR 0xA9, CHR 0xAF]
     @ [[CHR 0xE2, CHR 0x81, CHR 0x9F], [CHR 0xE3, CHR 0x80, CHR 0x80]]"

text \<open>Removing, as long as there is one, a leading occurrence of one of the words \<open>ws\<close>.\<close>

function drop_leading :: "string list \<Rightarrow> string \<Rightarrow> string" where
  "drop_leading ws s =
     (case find (\<lambda>w. w \<noteq> [] \<and> prefix w s) ws of
        None \<Rightarrow> s
      | Some w \<Rightarrow> drop_leading ws (drop (length w) s))"
  by pat_completeness auto
termination
proof (relation "measure (\<lambda>(ws, s). length s)")
  show "wf (measure (\<lambda>(ws, s). length s))" by simp
next
  fix ws :: "string list" and s w :: string
  assume "find (\<lambda>w. w \<noteq> [] \<and> prefix w s) ws = Some w"
  then have "w \<noteq> []" and "prefix w s" by (auto simp: find_Some_iff)
  then have "0 < length w" and "length w \<le> length s" by (auto simp: prefix_def)
  then have "length s - length w < length s" by arith
  then show "((ws, drop (length w) s), (ws, s)) \<in> measure (\<lambda>(ws, s). length s)" by simp
qed

declare drop_leading.simps [simp del]

definition lstrip :: "string \<Rightarrow> string" where
  "lstrip s = drop_leading whitespace s"

definition rstrip :: "string \<Rightarrow> string" where
  "rstrip s = rev (drop_leading (map rev whitespace) (rev s))"

definition strip :: "string \<Rightarrow> string" where
  "strip s = rstrip (lstrip s)"

subsection \<open>Status model and StepInfo\<close>

text \<open>
  Modelled from the spec: \<open>smartsim/constants.py\<close> and \<open>launcher/stepInfo.py\<close> are
  not part of the sources at hand. Section 4.1 of the specification lists the canonical
  statuses. The attribute \<open>status\<close> of a StepInfo is a Python string, as the
  assignment of \<open>"Cancelled"\<close> in \<open>stop\<close> shows; \<open>status_name\<close> is the string of a
  canonical status, and \<open>STATUS_COMPLETED\<close> is the string of \<open>Completed\<close>.
\<close>

datatype status = Pending | Running | Completed | Failed | Cancelled | Unknown

fun status_name :: "status \<Rightarrow> string" where
  "status_name Pending = ''Pending''"
| "status_name Running = ''Running''"
| "status_name Completed = ''Completed''"
| "status_name Failed = ''Failed''"
| "status_name Cancelled = ''Cancelled''"
| "status_name Unknown = ''Unknown''"

definition canonical_statuses :: "string list" where
  "canonical_statuses =
     [''Pending'', ''Running'', ''Completed'', ''Failed'', ''Cancelled'', ''Unknown'']"

definition STATUS_COMPLETED :: string where
  "STATUS_COMPLETED = ''Completed''"

text \<open>The attributes \<open>output\<close> and \<open>error\<close> are the fields \<open>output_ref\<close> and \<open>error_ref\<close>.\<close>

record step_info =
  status :: string
  returncode :: "int option"
  output_ref :: "string option"
  error_ref :: "string option"

text \<open>
  Modelled from the spec: \<open>pbsParser.parse_qstat_jobid\<close> is not part of the sources at
  hand. It maps the text printed by \<open>qstat\<close> and a job id to the raw state of that job
  (section 6); section 4.1 sets apart the job that is no longer present in the
  scheduler's records.
\<close>

datatype qstat_state = NotInHistory | JobState string

text \<open>
  Modelled from the spec: the classes \<open>PBSStepInfo\<close> and \<open>UnmanagedStepInfo\<close> are not
  part of the sources at hand. Each takes a raw status and normalises it with the
  backend's pure status function, which maps the raw vocabulary to one canonical
  status (section 4.1) and is the parameter \<open>to_status\<close> here; a job that is no longer
  in the scheduler's history is classified \<open>Completed\<close>. The StepInfo stores the name
  of the canonical status. The return code and the output references are stored as
  given; they default to \<open>None\<close>.
\<close>

definition PBSStepInfo :: "(string \<Rightarrow> status) \<Rightarrow> qstat_state \<Rightarrow> int option \<Rightarrow> step_info" where
  "PBSStepInfo to_status stat rc =
     \<lparr>status = status_name (case stat of NotInHistory \<Rightarrow> Completed | JobState s \<Rightarrow> to_status s),
      returncode = rc, output_ref = None, error_ref = None\<rparr>"

definition UnmanagedStepInfo ::
  "(string \<Rightarrow> status) \<Rightarrow> string \<Rightarrow> int option \<Rightarrow> string option \<Rightarrow> string option \<Rightarrow> step_info" where
  "UnmanagedStepInfo to_status stat rc out err =
     \<lparr>status = status_name (to_status stat), returncode = rc, output_ref = out, error_ref = err\<rparr>"

subsection \<open>Settings and steps\<close>

text \<open>The settings classes exported by \<open>smartsim/settings/__init__.py\<close>.\<close>

datatype settings_kind =
    AprunSettings
  | CobaltBatchSettings
  | BsubBatchSettings
  | JsrunSettings
  | MpirunSettings
  | QsubBatchSettings
  | RunSettings
  | SbatchSettings
  | SrunSettings

text \<open>
  A settings object: its class and its launch parameters, which the launcher never
  inspects.
\<close>

record settings =
  kind :: settings_kind
  params :: "(string \<times> string) list"

text \<open>\<open>type(step_settings)\<close> as the f-string prints it.\<close>

definition class_repr :: "string \<Rightarrow> string \<Rightarrow> string" where
  "class_repr modname cls =
     ''<class '' @ [CHR 0x27] @ ''smartsim.settings.'' @ modname @ ''.'' @ cls @ [CHR 0x27] @ ''>''"

fun type_repr :: "settings_kind \<Rightarrow> string" where
  "type_repr AprunSettings = class_repr ''alpsSettings'' ''AprunSettings''"
| "type_repr CobaltBatchSettings = class_repr ''cobaltSettings'' ''CobaltBatchSettings''"
| "type_repr BsubBatchSettings = class_repr ''lsfSettings'' ''BsubBatchSettings''"
| "type_repr JsrunSettings = class_repr ''lsfSettings'' ''JsrunSettings''"
| "type_repr MpirunSettings = class_repr ''mpirunSettings'' ''MpirunSettings''"
| "type_repr QsubBatchSettings = class_repr ''pbsSettings'' ''QsubBatchSettings''"
| "type_repr RunSettings = class_repr ''base'' ''RunSettings''"
| "type_repr SbatchSettings = class_repr ''slurmSettings'' ''SbatchSettings''"
| "type_repr SrunSettings = class_repr ''slurmSettings'' ''SrunSettings''"

text \<open>
  Modelled from the spec: the step classes of \<open>launcher/step\<close> are not part of the
  sources at hand. A step holds its name, its working directory and its settings
  (section 3), and its class is one of the three that \<open>create_step\<close> builds.
\<close>

datatype step =
    AprunStep (name: string) (cwd: string) (step_settings: settings)
  | QsubBatchStep (name: string) (cwd: string) (step_settings: settings)
  | MpirunStep (name: string) (cwd: string) (step_settings: settings)

text \<open>\<open>isinstance(step, QsubBatchStep)\<close>.\<close>

fun isinstance_QsubBatchStep :: "step \<Rightarrow> bool" where
  "isinstance_QsubBatchStep (QsubBatchStep _ _ _) = True"
| "isinstance_QsubBatchStep _ = False"

text \<open>
  Modelled from the spec: the attribute \<open>step.managed\<close> is set by the step classes,
  which are not part of the sources at hand. A batch step is launched through the
  scheduler's submission command and tracked by the scheduler; a direct-run step is a
  local process with no scheduler involvement (glossary). \<open>get_step_update\<close> says the
  same in its comments: the jobs managed by PBS are "just qsub batch for now", the
  unmanaged ones are "Aprun, mpirun, etc".
\<close>

fun managed :: "step \<Rightarrow> bool" where
  "managed (QsubBatchStep _ _ _) = True"
| "managed (AprunStep _ _ _) = False"
| "managed (MpirunStep _ _ _) = False"

subsection \<open>Step mapping registry\<close>

text \<open>
  Modelled from the spec: \<open>launcher/stepMapping.py\<close> is not part of the sources at
  hand. An entry holds the optional scheduler step id, the optional task id and the
  managed flag (section 3); the registry is a dictionary from step names to entries.
\<close>

record step_map =
  step_id :: "string option"
  task_id :: "string option"
  is_managed :: bool

type_synonym step_mapping = "string \<rightharpoonup> step_map"

text \<open>\<open>add\<close> creates or replaces the entry for the name (section 4.3).\<close>

definition add ::
  "step_mapping \<Rightarrow> string \<Rightarrow> string option \<Rightarrow> string option \<Rightarrow> bool \<Rightarrow> step_mapping" where
  "add m step_name sid tid mgd =
     m(step_name \<mapsto> \<lparr>step_id = sid, task_id = tid, is_managed = mgd\<rparr>)"

text \<open>
  \<open>get_ids\<close> walks the requested names in order and collects, for each name that has
  an entry whose managed flag equals the filter, the name and the identifier of that
  entry: the step id when the filter asks for managed entries, the task id otherwise
  (\<open>get_step_update\<close> binds the two results to \<open>step_ids\<close> and \<open>task_ids\<close>). Every
  other name is skipped.
\<close>

fun get_ids :: "step_mapping \<Rightarrow> string list \<Rightarrow> bool \<Rightarrow> string list \<times> string option list" where
  "get_ids m [] mgd = ([], [])"
| "get_ids m (n # ns) mgd =
     (let (names, ids) = get_ids m ns mgd in
      case m n of
        None \<Rightarrow> (names, ids)
      | Some stepmap \<Rightarrow>
          if mgd \<and> is_managed stepmap then (n # names, step_id stepmap # ids)
          else if \<not> mgd \<and> \<not> is_managed stepmap then (n # names, task_id stepmap # ids)
          else (names, ids))"

text \<open>\<open>step_mapping[name]\<close>: a missing key raises \<open>KeyError\<close>.\<close>

definition getitem :: "step_mapping \<Rightarrow> string \<Rightarrow> error + step_map" where
  "getitem m step_name = (case m step_name of None \<Rightarrow> Inl (KeyError step_name) | Some e \<Rightarrow> Inr e)"

text \<open>The names of a request that the registry holds with a given managed flag.\<close>

definition registered :: "step_mapping \<Rightarrow> bool \<Rightarrow> string \<Rightarrow> bool" where
  "registered m mgd n = (case m n of None \<Rightarrow> False | Some e \<Rightarrow> is_managed e = mgd)"

text \<open>The identifier that \<open>get_ids\<close> reports for a registered name.\<close>

definition id_of :: "step_mapping \<Rightarrow> bool \<Rightarrow> string \<Rightarrow> string option" where
  "id_of m mgd n =
     (case m n of None \<Rightarrow> None | Some e \<Rightarrow> if mgd then step_id e else task_id e)"

subsection \<open>The world outside the launcher\<close>

text \<open>Every call that leaves the launcher, in the order the calls are made.\<close>

datatype event =
    TaskManagerStart
  | StartAndWait "string list" string
  | OpenFile string
  | StartTask "string list" string string string
  | RemoveTask "string option"
  | GetTaskUpdate "string option"
  | Qstat "string option list"
  | Qdel "string list"
  | Sleep int
  | LogDebug string
  | LogWarning string

text \<open>
  Modelled from the spec: the task manager (\<open>launcher/taskManager.py\<close>), the scheduler
  commands (\<open>pbsCommands.qstat\<close>, \<open>pbsCommands.qdel\<close>), the parsers of \<open>pbsParser\<close>,
  the status tables of the StepInfo classes and the methods of the step classes are not
  part of the sources at hand. Their answers are the fields of this record. An answer
  that can change from one call to the next takes the log of the calls made so far.
  Sections 4.2 and 6 give the signatures: \<open>start_and_wait\<close> returns the return code and
  the captured output and error text, \<open>start_task\<close> a task id, \<open>get_task_update\<close> the
  raw status, the return code and the output and error references, \<open>qstat\<close> the output
  and error text, \<open>qdel\<close> the return code with the output and error text.
  \<open>step_init_error\<close> is the exception, if any, that the constructor of a step class
  raises for the given name, directory and settings. The file system answers too:
  \<open>open_reply\<close> is the message of the \<open>OSError\<close>, if any, that opening the given
  path for writing raises.
\<close>

record env =
  get_launch_cmd :: "step \<Rightarrow> string list"
  get_output_files :: "step \<Rightarrow> string \<times> string"
  step_init_error :: "string \<Rightarrow> string \<Rightarrow> settings \<Rightarrow> error option"
  open_reply :: "event list \<Rightarrow> string \<Rightarrow> string option"
  start_and_wait_reply :: "event list \<Rightarrow> string list \<Rightarrow> string \<Rightarrow> int \<times> string \<times> string"
  start_task_reply :: "event list \<Rightarrow> string list \<Rightarrow> string \<Rightarrow> string \<Rightarrow> string \<Rightarrow> string"
  get_task_update_reply ::
    "event list \<Rightarrow> string option \<Rightarrow> string \<times> int option \<times> string option \<times> string option"
  qstat_reply :: "event list \<Rightarrow> string option list \<Rightarrow> string \<times> string"
  qdel_reply :: "event list \<Rightarrow> string list \<Rightarrow> int \<times> string \<times> string"
  parse_step_id_from_qstat :: "string \<Rightarrow> string \<Rightarrow> string option"
  parse_qstat_jobid :: "string \<Rightarrow> string \<Rightarrow> qstat_state"
  pbs_status :: "string \<Rightarrow> status"
  unmanaged_status :: "string \<Rightarrow> status"

text \<open>
  The state of a \<open>PBSLauncher\<close>: the task manager's monitoring flag, the step mapping,
  and the log.
\<close>

record state =
  actively_monitoring :: bool
  step_mapping :: step_mapping
  history :: "event list"

definition emit :: "event \<Rightarrow> state \<Rightarrow> state" where
  "emit e s = s\<lparr>history := history s @ [e]\<rparr>"

text \<open>The task manager's methods (section 4.2), each logging its call.\<close>

definition start :: "state \<Rightarrow> state" where
  "start s = emit TaskManagerStart (s\<lparr>actively_monitoring := True\<rparr>)"

definition start_and_wait ::
  "env \<Rightarrow> state \<Rightarrow> string list \<Rightarrow> string \<Rightarrow> (int \<times> string \<times> string) \<times> state" where
  "start_and_wait e s cmd_list dir =
     (start_and_wait_reply e (history s) cmd_list dir, emit (StartAndWait cmd_list dir) s)"

definition start_task ::
  "env \<Rightarrow> state \<Rightarrow> string list \<Rightarrow> string \<Rightarrow> string \<Rightarrow> string \<Rightarrow> string \<times> state" where
  "start_task e s cmd_list dir out err =
     (start_task_reply e (history s) cmd_list dir out err, emit (StartTask cmd_list dir out err) s)"

definition get_task_update ::
  "env \<Rightarrow> state \<Rightarrow> string option \<Rightarrow> (string \<times> int option \<times> string option \<times> string option) \<times> state" where
  "get_task_update e s tid = (get_task_update_reply e (history s) tid, emit (GetTaskUpdate tid) s)"

definition remove_task :: "state \<Rightarrow> string option \<Rightarrow> state" where
  "remove_task s tid = emit (RemoveTask tid) s"

text \<open>The scheduler's commands.\<close>

definition qstat :: "env \<Rightarrow> state \<Rightarrow> string option list \<Rightarrow> (string \<times> string) \<times> state" where
  "qstat e s args = (qstat_reply e (history s) args, emit (Qstat args) s)"

definition qdel :: "env \<Rightarrow> state \<Rightarrow> string list \<Rightarrow> (int \<times> string \<times> string) \<times> state" where
  "qdel e s args = (qdel_reply e (history s) args, emit (Qdel args) s)"

definition sleep :: "int \<Rightarrow> state \<Rightarrow> state" where
  "sleep interval s = emit (Sleep interval) s"

subsection \<open>PBSLauncher.create_step\<close>

text \<open>
  Calling a step class: the constructor either raises or returns the instance.
\<close>

definition new_step ::
  "env \<Rightarrow> (string \<Rightarrow> string \<Rightarrow> settings \<Rightarrow> step) \<Rightarrow> string \<Rightarrow> string \<Rightarrow> settings \<Rightarrow> error + step" where
  "new_step e cls nm dir st =
     (case step_init_error e nm dir st of Some ex \<Rightarrow> Inl ex | None \<Rightarrow> Inr (cls nm dir st))"

text \<open>
  The \<open>isinstance\<close> chain inside \<open>try\<close>; the handler catches \<open>SSConfigError\<close> only, so
  the \<open>TypeError\<close> of the last branch and any other exception leave the method as
  they are.
\<close>

definition create_step :: "env \<Rightarrow> string \<Rightarrow> string \<Rightarrow> settings \<Rightarrow> error + step" where
  "create_step e nm dir st =
     (case (if kind st = AprunSettings then new_step e AprunStep nm dir st
            else if kind st = QsubBatchSettings then new_step e QsubBatchStep nm dir st
            else if kind st = MpirunSettings then new_step e MpirunStep nm dir st
            else Inl (TypeError (''RunSettings type '' @ type_repr (kind st)
                                  @ '' not supported by PBSPro'')))
      of Inl (SSConfigError msg) \<Rightarrow> Inl (LauncherError (''Job step creation failed: '' @ msg))
       | Inl ex \<Rightarrow> Inl ex
       | Inr st' \<Rightarrow> Inr st')"

subsection \<open>PBSLauncher._get_pbs_step_id\<close>

text \<open>
  The \<open>while trials > 0\<close> loop: one \<open>qstat -f -F json\<close> per round; a truthy step id
  leaves the loop, anything else sleeps and counts the round.
\<close>

definition qstat_json_args :: "string option list" where
  "qstat_json_args = [Some ''-f'', Some ''-F'', Some ''json'']"

function get_pbs_step_id_while ::
  "env \<Rightarrow> string \<Rightarrow> int \<Rightarrow> int \<Rightarrow> string option \<Rightarrow> state \<Rightarrow> string option \<times> state" where
  "get_pbs_step_id_while e nm interval trials sid s =
     (if trials > 0 then
        (let (reply, s1) = qstat e s qstat_json_args;
             sid' = parse_step_id_from_qstat e (fst reply) nm
         in if truthy sid' then (sid', s1)
            else get_pbs_step_id_while e nm interval (trials - 1) sid' (sleep interval s1))
      else (sid, s))"
  by pat_completeness auto
termination
  by (relation "measure (\<lambda>(e, nm, interval, trials, sid, s). nat trials)") auto

declare get_pbs_step_id_while.simps [simp del]

definition get_pbs_step_id :: "env \<Rightarrow> state \<Rightarrow> step \<Rightarrow> int \<Rightarrow> int \<Rightarrow> (error + string option) \<times> state" where
  "get_pbs_step_id e s stp interval trials =
     (let s1 = sleep interval s;
          (sid, s2) = get_pbs_step_id_while e (name stp) interval trials (Some ''unassigned'') s1
      in if \<not> truthy sid then (Inl (LauncherError ''Could not find id of launched job step''), s2)
         else (Inr sid, s2))"

text \<open>
  The log seen by round \<open>k\<close> (counted from 0) of the loop when every earlier round
  failed: each failed round has added one query and one sleep. \<open>attempt\<close> is the step
  id that round \<open>k\<close> parses from the scheduler's answer to that log.
\<close>

definition poll_history :: "event list \<Rightarrow> int \<Rightarrow> nat \<Rightarrow> event list" where
  "poll_history h interval k = h @ concat (replicate k [Qstat qstat_json_args, Sleep interval])"

definition attempt :: "env \<Rightarrow> string \<Rightarrow> int \<Rightarrow> event list \<Rightarrow> nat \<Rightarrow> string option" where
  "attempt e nm interval h k =
     parse_step_id_from_qstat e (fst (qstat_reply e (poll_history h interval k) qstat_json_args)) nm"

subsection \<open>PBSLauncher.run\<close>

text \<open>
  \<open>open(path, "w+")\<close>: the call either raises \<open>OSError\<close> or returns the file object,
  which the model identifies with its path.
\<close>

definition open_file :: "env \<Rightarrow> state \<Rightarrow> string \<Rightarrow> (error + string) \<times> state" where
  "open_file e s path =
     ((case open_reply e (history s) path of Some msg \<Rightarrow> Inl (OSError msg) | None \<Rightarrow> Inr path),
      emit (OpenFile path) s)"

text \<open>
  The first half of \<open>run\<close>: a batch step is submitted and waited for; for any other step
  the two output files are opened for writing, in the order output, error, and the step
  is started as a task with them. An \<open>open\<close> that raises ends \<open>run\<close> there. The result
  is the pair \<open>(step_id, task_id)\<close>.
\<close>

definition launch :: "env \<Rightarrow> state \<Rightarrow> step \<Rightarrow> (error + string option \<times> string option) \<times> state" where
  "launch e s stp =
     (let cmd_list = get_launch_cmd e stp in
      if isinstance_QsubBatchStep stp then
        (let ((rc, out, err), s1) = start_and_wait e s cmd_list (cwd stp) in
         if rc \<noteq> 0 then
           (Inl (LauncherError (''Qsub batch submission failed'' @ [CHR 0x0A] @ '' '' @ out
                                 @ [CHR 0x0A] @ '' '' @ err)), s1)
         else if out \<noteq> [] then
           (Inr (Some (strip out), None),
            emit (LogDebug (''Gleaned batch job id: '' @ strip out @ '' for '' @ name stp)) s1)
         else (Inr (None, None), s1))
      else
        (let (out, err) = get_output_files e stp in
         case open_file e s out of
           (Inl ex, s1) \<Rightarrow> (Inl ex, s1)
         | (Inr out_file, s1) \<Rightarrow>
             (case open_file e s1 err of
                (Inl ex, s2) \<Rightarrow> (Inl ex, s2)
              | (Inr err_file, s2) \<Rightarrow>
                  (let (tid, s3) = start_task e s2 cmd_list (cwd stp) out_file err_file
                   in (Inr (None, Some tid), s3)))))"

text \<open>The two paths that \<open>step.get_output_files()\<close> returns.\<close>

definition out_path :: "env \<Rightarrow> step \<Rightarrow> string" where
  "out_path e stp = fst (get_output_files e stp)"

definition err_path :: "env \<Rightarrow> step \<Rightarrow> string" where
  "err_path e stp = snd (get_output_files e stp)"

text \<open>The guard that opens \<open>run\<close>: the task manager is started unless it is monitoring.\<close>

definition ensure_monitoring :: "state \<Rightarrow> state" where
  "ensure_monitoring s = (if \<not> actively_monitoring s then start s else s)"

definition run :: "env \<Rightarrow> state \<Rightarrow> step \<Rightarrow> (error + string option) \<times> state" where
  "run e s stp =
     (let s0 = ensure_monitoring s in
      case launch e s0 stp of
        (Inl ex, s1) \<Rightarrow> (Inl ex, s1)
      | (Inr (sid, tid), s1) \<Rightarrow>
          (case (if \<not> truthy sid \<and> managed stp then get_pbs_step_id e s1 stp 2 5
                 else (Inr sid, s1)) of
             (Inl ex, s2) \<Rightarrow> (Inl ex, s2)
           | (Inr sid', s2) \<Rightarrow>
               (Inr sid',
                s2\<lparr>step_mapping := add (step_mapping s2) (name stp) sid' tid (managed stp)\<rparr>)))"

subsection \<open>PBSLauncher.get_step_update\<close>

definition managed_info :: "env \<Rightarrow> qstat_state \<Rightarrow> step_info" where
  "managed_info e stat =
     (let info = PBSStepInfo (pbs_status e) stat None in
      if status info = STATUS_COMPLETED then info\<lparr>returncode := Some 0\<rparr> else info)"

definition get_managed_step_update ::
  "env \<Rightarrow> state \<Rightarrow> string option list \<Rightarrow> step_info list \<times> state" where
  "get_managed_step_update e s step_ids =
     (let (reply, s1) = qstat e s step_ids;
          stats = map (\<lambda>sid. parse_qstat_jobid e (fst reply) (str sid)) step_ids
      in (map (\<lambda>(stat, sid). managed_info e stat) (zip stats step_ids), s1))"

fun get_unmanaged_step_update ::
  "env \<Rightarrow> state \<Rightarrow> string option list \<Rightarrow> step_info list \<times> state" where
  "get_unmanaged_step_update e s [] = ([], s)"
| "get_unmanaged_step_update e s (tid # tids) =
     (let ((stat, rc, out, err), s1) = get_task_update e s tid;
          update = UnmanagedStepInfo (unmanaged_status e) stat rc out err;
          (updates, s2) = get_unmanaged_step_update e s1 tids
      in (update # updates, s2))"

definition get_step_update ::
  "env \<Rightarrow> state \<Rightarrow> string list \<Rightarrow> (string \<times> step_info) list \<times> state" where
  "get_step_update e s step_names =
     (let (s_names, step_ids) = get_ids (step_mapping s) step_names True;
          (updates1, s1) =
             (if length step_ids > 0 then
                (let (s_statuses, s') = get_managed_step_update e s step_ids
                 in (zip s_names s_statuses, s'))
              else ([], s));
          (t_names, task_ids) = get_ids (step_mapping s1) step_names False;
          (updates2, s2) =
             (if length task_ids > 0 then
                (let (t_statuses, s') = get_unmanaged_step_update e s1 task_ids
                 in (zip t_names t_statuses, s'))
              else ([], s1))
      in (updates1 @ updates2, s2))"

text \<open>
  The StepInfo that one batched \<open>qstat\<close> over \<open>step_ids\<close>, issued in state \<open>s\<close>, gives
  for the step id \<open>sid\<close>; the state in which \<open>get_step_update\<close> turns to the
  unmanaged names (the query is logged unless no requested name is managed); and the
  StepInfo that the task manager's answer to the log \<open>h\<close> gives for the task id \<open>tid\<close>.
\<close>

definition managed_poll :: "env \<Rightarrow> state \<Rightarrow> string option list \<Rightarrow> string option \<Rightarrow> step_info" where
  "managed_poll e s step_ids sid =
     managed_info e (parse_qstat_jobid e (fst (qstat_reply e (history s) step_ids)) (str sid))"

definition after_managed :: "state \<Rightarrow> string list \<Rightarrow> state" where
  "after_managed s step_names =
     (let step_ids = snd (get_ids (step_mapping s) step_names True)
      in if step_ids = [] then s else emit (Qstat step_ids) s)"

definition unmanaged_poll :: "env \<Rightarrow> event list \<Rightarrow> string option \<Rightarrow> step_info" where
  "unmanaged_poll e h tid =
     (let (stat, rc, out, err) = get_task_update_reply e h tid
      in UnmanagedStepInfo (unmanaged_status e) stat rc out err)"

text \<open>The requested names that are registered as managed, and as unmanaged.\<close>

definition managed_names :: "state \<Rightarrow> string list \<Rightarrow> string list" where
  "managed_names s step_names = filter (registered (step_mapping s) True) step_names"

definition unmanaged_names :: "state \<Rightarrow> string list \<Rightarrow> string list" where
  "unmanaged_names s step_names = filter (registered (step_mapping s) False) step_names"

subsection \<open>PBSLauncher.stop\<close>

text \<open>The cancellation that \<open>stop\<close> performs for the entry it has looked up.\<close>

definition cancel :: "env \<Rightarrow> state \<Rightarrow> string \<Rightarrow> step_map \<Rightarrow> state" where
  "cancel e s step_name stepmap =
     (if is_managed stepmap then
        (let ((qdel_rc, _, err), s1) = qdel e s [str (step_id stepmap)];
             s2 = (if qdel_rc \<noteq> 0 then
                     emit (LogWarning (''Unable to cancel job step '' @ step_name
                                        @ [CHR 0x0A] @ '' '' @ err)) s1
                   else s1)
         in if truthy (task_id stepmap) then remove_task s2 (task_id stepmap) else s2)
      else remove_task s (task_id stepmap))"

definition stop :: "env \<Rightarrow> state \<Rightarrow> string \<Rightarrow> (error + step_info) \<times> state" where
  "stop e s step_name =
     (case getitem (step_mapping s) step_name of
        Inl ex \<Rightarrow> (Inl ex, s)
      | Inr stepmap \<Rightarrow>
          (let s1 = cancel e s step_name stepmap;
               (updates, s2) = get_step_update e s1 [step_name]
           in case updates of
                [] \<Rightarrow> (Inl IndexError, s2)
              | (_, info) # _ \<Rightarrow> (Inr (info\<lparr>status := ''Cancelled''\<rparr>), s2)))"

section \<open>Concrete scenarios\<close>

text \<open>A registry with two managed and two unmanaged entries.\<close>

definition registry0 :: step_mapping where
  "registry0 =
     add (add (add (add Map.empty ''job_0'' (Some ''42'') None True)
                 ''job_1'' None (Some ''7'') False)
            ''job_2'' (Some ''44'') None True)
       ''job_3'' None (Some ''8'') False"

text \<open>
  A scheduler whose third \<open>qstat\<close> lists the job, a submission that prints nothing, a
  \<open>qdel\<close> that fails, and step classes that reject settings without parameters.
\<close>

definition is_Qstat :: "event \<Rightarrow> bool" where
  "is_Qstat ev = (case ev of Qstat _ \<Rightarrow> True | _ \<Rightarrow> False)"

definition env0 :: env where
  "env0 =
     \<lparr>get_launch_cmd = (\<lambda>stp. [''qsub'', name stp @ ''.sh'']),
      get_output_files = (\<lambda>stp. (name stp @ ''.out'', name stp @ ''.err'')),
      step_init_error = (\<lambda>nm dir st.
         if params st = [] then Some (SSConfigError ''no launch parameters'') else None),
      open_reply = (\<lambda>h path. None),
      start_and_wait_reply = (\<lambda>h cmd dir. (0, [], [])),
      start_task_reply = (\<lambda>h cmd dir out err. ''4711''),
      get_task_update_reply =
        (\<lambda>h tid. if tid = Some ''8''
                  then (''running'', None, Some ''job_3.out'', Some ''job_3.err'')
                  else (''zombie'', Some 1, Some ''job_1.out'', Some ''job_1.err'')),
      qstat_reply =
        (\<lambda>h args. (if length (filter is_Qstat h) = 2 then ''found'' else ''empty'', [])),
      qdel_reply = (\<lambda>h args. (1, [], ''qdel: Unknown Job Id'')),
      parse_step_id_from_qstat = (\<lambda>out nm. if out = ''found'' then Some (''42.'' @ nm) else None),
      parse_qstat_jobid =
        (\<lambda>out jid. if jid = ''42'' then NotInHistory
                    else if jid = ''44'' then JobState ''Z'' else JobState ''R''),
      pbs_status =
        (\<lambda>raw. if raw = ''R'' then Running else if raw = ''F'' then Completed else Failed),
      unmanaged_status = (\<lambda>raw. if raw = ''running'' then Running else Failed)\<rparr>"

text \<open>The same world with a scheduler that never lists the job.\<close>

definition env_never :: env where
  "env_never = env0\<lparr>parse_step_id_from_qstat := (\<lambda>out nm. None)\<rparr>"

text \<open>The same world with a submission that is rejected.\<close>

definition env_rejected :: env where
  "env_rejected =
     env0\<lparr>start_and_wait_reply := (\<lambda>h cmd dir. (1, ''qsub'', ''Unknown queue''))\<rparr>"

text \<open>The same world with a submission that prints the job id.\<close>

definition env_printed :: env where
  "env_printed =
     env0\<lparr>start_and_wait_reply := (\<lambda>h cmd dir. (0, ''42.pbs'' @ [CHR 0x0A], []))\<rparr>"

text \<open>The same world with a launch directory that does not exist.\<close>

definition env_unwritable :: env where
  "env_unwritable = env0\<lparr>open_reply := (\<lambda>h path. Some ''No such file or directory'')\<rparr>"

text \<open>The same world with an error file that cannot be written.\<close>

definition env_err_unwritable :: env where
  "env_err_unwritable =
     env0\<lparr>open_reply := (\<lambda>h path. if path = ''job_1.err'' then Some ''Permission denied'' else None)\<rparr>"

definition state0 :: state where
  "state0 = \<lparr>actively_monitoring = False, step_mapping = Map.empty, history = []\<rparr>"

definition state1 :: state where
  "state1 = \<lparr>actively_monitoring = True, step_mapping = registry0, history = []\<rparr>"

definition settings0 :: "settings_kind \<Rightarrow> settings" where
  "settings0 k = \<lparr>kind = k, params = [(''nodes'', ''1'')]\<rparr>"

definition batch0 :: step where
  "batch0 = QsubBatchStep ''job_0'' ''/tmp'' (settings0 QsubBatchSettings)"

definition direct0 :: step where
  "direct0 = AprunStep ''job_1'' ''/tmp'' (settings0 AprunSettings)"

section \<open>Properties\<close>

lemma get_ids_names: "fst (get_ids m ns mgd) = filter (registered m mgd) ns"
  by (induction ns) (auto simp: registered_def split: prod.splits option.splits)

lemma get_ids_ids: "snd (get_ids m ns mgd) = map (id_of m mgd) (filter (registered m mgd) ns)"
  by (induction ns) (auto simp: registered_def id_of_def split: prod.splits option.splits)

subsection \<open>The registry\<close>

text \<open>
  C7. For every list of requested names and every filter value, \<open>get_ids\<close> returns
  two sequences of the same length: the names are exactly the requested names that
  have an entry whose managed flag equals the filter, in the order and multiplicity of
  the request (so they are a subsequence of it); the identifier at each position is
  the one of the name at that position; every returned name has an entry with the
  filter's flag; names without an entry or with the other flag are left out, and no
  error value exists in the result type; the names returned for \<open>managed=True\<close> and
  for \<open>managed=False\<close> are disjoint.
\<close>

theorem get_ids_spec:
  "fst (get_ids m ns mgd) = filter (registered m mgd) ns
   \<and> snd (get_ids m ns mgd) = map (id_of m mgd) (fst (get_ids m ns mgd))
   \<and> length (snd (get_ids m ns mgd)) = length (fst (get_ids m ns mgd))
   \<and> (\<forall>n \<in> set (fst (get_ids m ns mgd)). \<exists>e. m n = Some e \<and> is_managed e = mgd)
   \<and> subseq (fst (get_ids m ns mgd)) ns
   \<and> set (fst (get_ids m ns True)) \<inter> set (fst (get_ids m ns False)) = {}"
proof -
  have names: "fst (get_ids m ns b) = filter (registered m b) ns" for b
    by (rule get_ids_names)
  have ids: "snd (get_ids m ns mgd) = map (id_of m mgd) (fst (get_ids m ns mgd))"
    by (simp add: get_ids_ids names)
  have only: "\<forall>n \<in> set (fst (get_ids m ns mgd)). \<exists>e. m n = Some e \<and> is_managed e = mgd"
    by (auto simp: names registered_def split: option.splits)
  have disj: "set (fst (get_ids m ns True)) \<inter> set (fst (get_ids m ns False)) = {}"
    by (auto simp: names registered_def split: option.splits)
  show ?thesis
    using ids only disj by (simp add: names)
qed

theorem get_ids_spec_witness:
  "get_ids registry0 [''job_1'', ''ghost'', ''job_0'', ''job_1''] True = ([''job_0''], [Some ''42''])
   \<and> get_ids registry0 [''job_1'', ''ghost'', ''job_0'', ''job_1''] False
       = ([''job_1'', ''job_1''], [Some ''7'', Some ''7''])
   \<and> (\<exists>e. registry0 ''job_1'' = Some e \<and> is_managed e = False)"
  using get_ids_spec [of registry0 "[''job_1'', ''ghost'', ''job_0'', ''job_1'']" False]
  by (simp add: registry0_def add_def registered_def id_of_def)

subsection \<open>The retry loop\<close>

lemma poll_history_0: "poll_history h i 0 = h"
  by (simp add: poll_history_def)

lemma poll_history_shift:
  "poll_history (h @ [Qstat qstat_json_args, Sleep i]) i k = poll_history h i (Suc k)"
  by (simp add: poll_history_def)

lemma attempt_shift:
  "attempt e nm i (h @ [Qstat qstat_json_args, Sleep i]) k = attempt e nm i h (Suc k)"
  by (simp add: attempt_def poll_history_shift)

lemma while_unfold_pos:
  "0 < trials \<Longrightarrow>
   get_pbs_step_id_while e nm i trials sid s =
     (if truthy (attempt e nm i (history s) 0)
      then (attempt e nm i (history s) 0, emit (Qstat qstat_json_args) s)
      else get_pbs_step_id_while e nm i (trials - 1) (attempt e nm i (history s) 0)
             (s\<lparr>history := history s @ [Qstat qstat_json_args, Sleep i]\<rparr>))"
  by (subst get_pbs_step_id_while.simps)
     (simp add: Let_def case_prod_unfold attempt_def poll_history_0 qstat_def sleep_def emit_def)

lemma while_unfold_0: "get_pbs_step_id_while e nm i 0 sid s = (sid, s)"
  by (subst get_pbs_step_id_while.simps) simp

lemma while_exhausted:
  "(\<forall>j<n. \<not> truthy (attempt e nm i (history s) j)) \<Longrightarrow>
   get_pbs_step_id_while e nm i (int n) sid s =
     (if n = 0 then sid else attempt e nm i (history s) (n - 1),
      s\<lparr>history := poll_history (history s) i n\<rparr>)"
proof (induction n arbitrary: s sid)
  case 0
  show ?case by (simp add: while_unfold_0 poll_history_0)
next
  case (Suc n)
  let ?s' = "s\<lparr>history := history s @ [Qstat qstat_json_args, Sleep i]\<rparr>"
  from Suc.prems have first: "\<not> truthy (attempt e nm i (history s) 0)" by simp
  from Suc.prems have rest: "\<forall>j<n. \<not> truthy (attempt e nm i (history ?s') j)"
    by (simp add: attempt_shift)
  have "get_pbs_step_id_while e nm i (int (Suc n)) sid s =
          get_pbs_step_id_while e nm i (int n) (attempt e nm i (history s) 0) ?s'"
    using first by (simp add: while_unfold_pos)
  also have "\<dots> = (if n = 0 then attempt e nm i (history s) 0
                      else attempt e nm i (history ?s') (n - 1),
                     ?s'\<lparr>history := poll_history (history ?s') i n\<rparr>)"
    using Suc.IH [OF rest] by simp
  finally show ?case
    by (cases n) (simp_all add: attempt_shift poll_history_shift)
qed

lemma while_found:
  "k < n \<Longrightarrow> truthy (attempt e nm i (history s) k) \<Longrightarrow>
   (\<forall>j<k. \<not> truthy (attempt e nm i (history s) j)) \<Longrightarrow>
   get_pbs_step_id_while e nm i (int n) sid s =
     (attempt e nm i (history s) k,
      s\<lparr>history := poll_history (history s) i k @ [Qstat qstat_json_args]\<rparr>)"
proof (induction k arbitrary: n s sid)
  case 0
  then show ?case by (simp add: while_unfold_pos emit_def poll_history_0)
next
  case (Suc k)
  let ?s' = "s\<lparr>history := history s @ [Qstat qstat_json_args, Sleep i]\<rparr>"
  from Suc.prems obtain n' where n: "n = Suc n'" and kn: "k < n'" by (cases n) auto
  from Suc.prems have first: "\<not> truthy (attempt e nm i (history s) 0)" by simp
  from Suc.prems have hit: "truthy (attempt e nm i (history ?s') k)"
    by (simp add: attempt_shift)
  from Suc.prems have rest: "\<forall>j<k. \<not> truthy (attempt e nm i (history ?s') j)"
    by (simp add: attempt_shift)
  have "get_pbs_step_id_while e nm i (int n) sid s =
          get_pbs_step_id_while e nm i (int n') (attempt e nm i (history s) 0) ?s'"
    using first n by (simp add: while_unfold_pos)
  also have "\<dots> = (attempt e nm i (history ?s') k,
                     ?s'\<lparr>history := poll_history (history ?s') i k @ [Qstat qstat_json_args]\<rparr>)"
    by (rule Suc.IH [OF kn hit rest])
  finally show ?case
    by (simp add: attempt_shift poll_history_shift)
qed

lemma launch_batch_cases:
  assumes "isinstance_QsubBatchStep stp" and "launch e s0 stp = (Inr (sid0, tid0), s1)"
  shows "tid0 = None \<and> step_mapping s1 = step_mapping s0
         \<and> actively_monitoring s1 = actively_monitoring s0"
  using assms
  by (auto simp: launch_def start_and_wait_def emit_def Let_def case_prod_unfold
           split: if_splits)

lemma ensure_monitoring_mapping: "step_mapping (ensure_monitoring s) = step_mapping s"
  by (simp add: ensure_monitoring_def start_def emit_def)

lemma batch_managed: "isinstance_QsubBatchStep stp \<Longrightarrow> managed stp"
  by (cases stp) simp_all

subsection \<open>Polling and cancelling\<close>

lemma status_name_canonical: "status_name x \<in> set canonical_statuses"
  by (cases x) (simp_all add: canonical_statuses_def)

lemma managed_info_status:
  "status (managed_info e stat) =
     status_name (case stat of NotInHistory \<Rightarrow> Completed | JobState r \<Rightarrow> pbs_status e r)"
  by (simp add: managed_info_def PBSStepInfo_def Let_def)

lemma managed_info_returncode:
  "returncode (managed_info e stat) =
     (if status (managed_info e stat) = ''Completed'' then Some 0 else None)"
  by (simp add: managed_info_def PBSStepInfo_def STATUS_COMPLETED_def Let_def)

lemma managed_info_refs:
  "output_ref (managed_info e stat) = None \<and> error_ref (managed_info e stat) = None"
  by (simp add: managed_info_def PBSStepInfo_def Let_def)

lemma managed_info_not_in_history:
  "managed_info e NotInHistory =
     \<lparr>status = ''Completed'', returncode = Some 0, output_ref = None, error_ref = None\<rparr>"
  by (simp add: managed_info_def PBSStepInfo_def STATUS_COMPLETED_def Let_def)

lemma map_zip_same: "map (\<lambda>(a, b). f a) (zip (map g xs) xs) = map (\<lambda>x. f (g x)) xs"
  by (induction xs) simp_all

lemma get_managed_step_update_eq:
  "get_managed_step_update e s step_ids =
     (map (managed_poll e s step_ids) step_ids, emit (Qstat step_ids) s)"
  by (simp add: get_managed_step_update_def qstat_def managed_poll_def map_zip_same)

lemma get_unmanaged_eq:
  "fst (get_unmanaged_step_update e s tids) =
     map (\<lambda>i. unmanaged_poll e (history s @ map GetTaskUpdate (take i tids)) (tids ! i))
       [0..<length tids]"
proof (induction tids arbitrary: s)
  case Nil
  show ?case by simp
next
  case (Cons tid tids)
  let ?s1 = "snd (get_task_update e s tid)"
  have h1: "history ?s1 = history s @ [GetTaskUpdate tid]"
    by (simp add: get_task_update_def emit_def)
  have "fst (get_unmanaged_step_update e s (tid # tids)) =
          unmanaged_poll e (history s) tid # fst (get_unmanaged_step_update e ?s1 tids)"
    by (simp add: case_prod_unfold Let_def unmanaged_poll_def get_task_update_def)
  also have "fst (get_unmanaged_step_update e ?s1 tids) =
          map (\<lambda>i. unmanaged_poll e (history s @ map GetTaskUpdate (take (Suc i) (tid # tids)))
                      ((tid # tids) ! Suc i))
            [0..<length tids]"
    by (simp add: Cons.IH h1)
  finally show ?case
    by (simp add: map_upt_Suc del: upt_Suc)
qed

lemma zip_map_self: "zip xs (map f xs) = map (\<lambda>x. (x, f x)) xs"
  by (induction xs) simp_all

lemma zip_map_upt:
  "zip xs (map f [0..<length xs]) = map (\<lambda>i. (xs ! i, f i)) [0..<length xs]"
  by (rule nth_equalityI) simp_all

lemma get_step_update_eq:
  "get_step_update e s ns =
     (let m = step_mapping s;
          mnames = filter (registered m True) ns;
          unames = filter (registered m False) ns;
          s1 = after_managed s ns;
          polls = get_unmanaged_step_update e s1 (map (id_of m False) unames)
      in (map (\<lambda>n. (n, managed_poll e s (map (id_of m True) mnames) (id_of m True n))) mnames
            @ zip unames (fst polls),
          if unames = [] then s1 else snd polls))"
proof -
  let ?m = "step_mapping s"
  have g: "get_ids ?m ns b = (filter (registered ?m b) ns, map (id_of ?m b) (filter (registered ?m b) ns))" for b
    using get_ids_names [of ?m ns b] get_ids_ids [of ?m ns b] by (simp add: prod_eq_iff)
  show ?thesis
    by (simp add: get_step_update_def g get_managed_step_update_eq after_managed_def emit_def
          Let_def zip_map_self comp_def zip_map2 case_prod_unfold)
qed

lemma get_step_update_single:
  assumes "step_mapping s n = Some ent"
  shows "get_step_update e s [n] =
     (if is_managed ent
      then ([(n, managed_poll e s [step_id ent] (step_id ent))], emit (Qstat [step_id ent]) s)
      else ([(n, unmanaged_poll e (history s) (task_id ent))],
            emit (GetTaskUpdate (task_id ent)) s))"
  using assms
  by (simp add: get_step_update_eq registered_def id_of_def after_managed_def get_ids_ids
        get_task_update_def unmanaged_poll_def Let_def case_prod_unfold)

lemma cancel_mapping: "step_mapping (cancel e s nm ent) = step_mapping s"
  by (simp add: cancel_def qdel_def remove_task_def emit_def Let_def case_prod_unfold)

lemma stop_eq:
  assumes "step_mapping s nm = Some ent"
  shows "stop e s nm =
     (Inr ((snd (hd (fst (get_step_update e (cancel e s nm ent) [nm]))))\<lparr>status := ''Cancelled''\<rparr>),
      snd (get_step_update e (cancel e s nm ent) [nm]))
     \<and> (\<exists>info. fst (get_step_update e (cancel e s nm ent) [nm]) = [(nm, info)])"
proof -
  have reg: "step_mapping (cancel e s nm ent) nm = Some ent"
    using assms by (simp add: cancel_mapping)
  show ?thesis
    using assms get_step_update_single [OF reg, of e]
    by (simp add: stop_def getitem_def Let_def case_prod_unfold split: if_splits)
qed

subsection \<open>Facts about the concrete scenarios\<close>

lemma all_less_2: "(\<forall>j<(2::nat). P j) = (P 0 \<and> P 1)"
  by (auto simp: less_Suc_eq numeral_2_eq_2)

lemma launch0:
  "launch env0 (ensure_monitoring state0) batch0 =
     (Inr (None, None),
      \<lparr>actively_monitoring = True, step_mapping = Map.empty,
       history = [TaskManagerStart, StartAndWait [''qsub'', ''job_0.sh''] ''/tmp'']\<rparr>)"
  by (simp add: launch_def ensure_monitoring_def state0_def start_def emit_def env0_def batch0_def
        start_and_wait_def)

lemma launch_never:
  "launch env_never (ensure_monitoring state0) batch0 =
     (Inr (None, None),
      \<lparr>actively_monitoring = True, step_mapping = Map.empty,
       history = [TaskManagerStart, StartAndWait [''qsub'', ''job_0.sh''] ''/tmp'']\<rparr>)"
  by (simp add: launch_def ensure_monitoring_def state0_def start_def emit_def env0_def batch0_def
        start_and_wait_def env_never_def)

lemma count_Qstat_rounds:
  "length (filter is_Qstat (concat (replicate k [Qstat args, Sleep i]))) = k"
  by (induction k) (simp_all add: is_Qstat_def)

lemma registry0_simps:
  "registry0 ''job_0'' = Some \<lparr>step_id = Some ''42'', task_id = None, is_managed = True\<rparr>"
  "registry0 ''job_1'' = Some \<lparr>step_id = None, task_id = Some ''7'', is_managed = False\<rparr>"
  "registry0 ''job_2'' = Some \<lparr>step_id = Some ''44'', task_id = None, is_managed = True\<rparr>"
  "registry0 ''job_3'' = Some \<lparr>step_id = None, task_id = Some ''8'', is_managed = False\<rparr>"
  "registry0 ''ghost'' = None"
  by (simp_all add: registry0_def add_def)

lemma poll0:
  "get_step_update env0 state1 [''job_1'', ''ghost'', ''job_2'', ''job_0''] =
     ([(''job_2'', \<lparr>status = ''Failed'', returncode = None, output_ref = None, error_ref = None\<rparr>),
       (''job_0'', \<lparr>status = ''Completed'', returncode = Some 0, output_ref = None, error_ref = None\<rparr>),
       (''job_1'', \<lparr>status = ''Failed'', returncode = Some 1, output_ref = Some ''job_1.out'',
                    error_ref = Some ''job_1.err''\<rparr>)],
      state1\<lparr>history := [Qstat [Some ''44'', Some ''42''], GetTaskUpdate (Some ''7'')]\<rparr>)"
  by (simp add: get_step_update_def state1_def registry0_simps get_managed_step_update_def
        qstat_def emit_def managed_info_def PBSStepInfo_def STATUS_COMPLETED_def
        UnmanagedStepInfo_def get_task_update_def env0_def Let_def)

lemma poll_single0:
  "get_step_update env0 state1 [''job_0''] =
     ([(''job_0'', \<lparr>status = ''Completed'', returncode = Some 0, output_ref = None, error_ref = None\<rparr>)],
      state1\<lparr>history := [Qstat [Some ''42'']]\<rparr>)"
  by (simp add: get_step_update_def state1_def registry0_simps get_managed_step_update_def
        qstat_def emit_def managed_info_def PBSStepInfo_def STATUS_COMPLETED_def env0_def Let_def)

subsection \<open>run\<close>

text \<open>
  C1. Take a batch step whose submission succeeded without yielding a step id (the
  first half of \<open>run\<close> returned a falsy \<open>step_id\<close>). Then \<open>run\<close> sleeps for the
  interval of 2 and queries \<open>qstat\<close> at most 5 times, sleeping for the same interval of
  2 after every failed round. If round \<open>k < 5\<close> is the first to parse a truthy step id
  for the step's name, \<open>run\<close> returns that id after exactly \<open>k + 1\<close> queries and
  registers it under the step's name as a managed entry. If none of the 5 rounds does,
  \<open>run\<close> raises \<open>LauncherError\<close> after exactly 5 queries and 5 further sleeps, and the
  step mapping is the one \<open>run\<close> started with.
\<close>

theorem run_polls_for_step_id:
  assumes "isinstance_QsubBatchStep stp"
    and "launch e (ensure_monitoring s) stp = (Inr (sid0, tid0), s1)"
    and "\<not> truthy sid0"
  shows
    "(\<forall>k<5. truthy (attempt e (name stp) 2 (history s1 @ [Sleep 2]) k)
             \<and> (\<forall>j<k. \<not> truthy (attempt e (name stp) 2 (history s1 @ [Sleep 2]) j)) \<longrightarrow>
        run e s stp =
          (Inr (attempt e (name stp) 2 (history s1 @ [Sleep 2]) k),
           s1\<lparr>history := poll_history (history s1 @ [Sleep 2]) 2 k @ [Qstat qstat_json_args],
              step_mapping := (step_mapping s)(name stp \<mapsto>
                 \<lparr>step_id = attempt e (name stp) 2 (history s1 @ [Sleep 2]) k,
                  task_id = None, is_managed = True\<rparr>)\<rparr>))
     \<and> ((\<forall>j<5. \<not> truthy (attempt e (name stp) 2 (history s1 @ [Sleep 2]) j)) \<longrightarrow>
        run e s stp =
          (Inl (LauncherError ''Could not find id of launched job step''),
           s1\<lparr>history := poll_history (history s1 @ [Sleep 2]) 2 5\<rparr>)
        \<and> step_mapping (snd (run e s stp)) = step_mapping s)"
proof -
  let ?h = "history s1 @ [Sleep 2]"
  let ?s2 = "sleep 2 s1"
  have h: "history ?s2 = ?h" by (simp add: sleep_def emit_def)
  have s2: "?s2\<lparr>history := hh\<rparr> = s1\<lparr>history := hh\<rparr>" for hh
    by (simp add: sleep_def emit_def)
  from assms(1,2) have tid: "tid0 = None" and map1: "step_mapping s1 = step_mapping s"
    using launch_batch_cases [of stp e "ensure_monitoring s" sid0 tid0 s1]
    by (simp_all add: ensure_monitoring_mapping)
  have mg: "managed stp" using assms(1) by (rule batch_managed)
  have run_eq: "run e s stp =
      (case get_pbs_step_id e s1 stp 2 5 of
         (Inl ex, s2) \<Rightarrow> (Inl ex, s2)
       | (Inr sid', s2) \<Rightarrow>
           (Inr sid', s2\<lparr>step_mapping := add (step_mapping s2) (name stp) sid' None (managed stp)\<rparr>))"
    using assms(2,3) mg tid by (simp add: run_def)
  have found: "run e s stp =
          (Inr (attempt e (name stp) 2 ?h k),
           s1\<lparr>history := poll_history ?h 2 k @ [Qstat qstat_json_args],
              step_mapping := (step_mapping s)(name stp \<mapsto>
                 \<lparr>step_id = attempt e (name stp) 2 ?h k, task_id = None, is_managed = True\<rparr>)\<rparr>)"
    if k: "k < 5" and hit: "truthy (attempt e (name stp) 2 ?h k)"
      and miss: "\<forall>j<k. \<not> truthy (attempt e (name stp) 2 ?h j)" for k
  proof -
    have "get_pbs_step_id_while e (name stp) 2 (int 5) (Some ''unassigned'') ?s2 =
            (attempt e (name stp) 2 ?h k,
             s1\<lparr>history := poll_history ?h 2 k @ [Qstat qstat_json_args]\<rparr>)"
      using while_found [of k 5 e "name stp" 2 ?s2 "Some ''unassigned''"] k hit miss
      by (simp add: h s2)
    then have "get_pbs_step_id e s1 stp 2 5 =
            (Inr (attempt e (name stp) 2 ?h k),
             s1\<lparr>history := poll_history ?h 2 k @ [Qstat qstat_json_args]\<rparr>)"
      using hit by (simp add: get_pbs_step_id_def)
    then show ?thesis
      by (simp add: run_eq add_def map1 mg)
  qed
  have exhausted: "run e s stp =
          (Inl (LauncherError ''Could not find id of launched job step''),
           s1\<lparr>history := poll_history ?h 2 5\<rparr>)
        \<and> step_mapping (snd (run e s stp)) = step_mapping s"
    if miss: "\<forall>j<5. \<not> truthy (attempt e (name stp) 2 ?h j)"
  proof -
    have "get_pbs_step_id_while e (name stp) 2 (int 5) (Some ''unassigned'') ?s2 =
            (attempt e (name stp) 2 ?h 4, s1\<lparr>history := poll_history ?h 2 5\<rparr>)"
      using while_exhausted [of 5 e "name stp" 2 ?s2 "Some ''unassigned''"] miss
      by (simp add: h s2)
    moreover have "\<not> truthy (attempt e (name stp) 2 ?h 4)" using miss by simp
    ultimately have "get_pbs_step_id e s1 stp 2 5 =
            (Inl (LauncherError ''Could not find id of launched job step''),
             s1\<lparr>history := poll_history ?h 2 5\<rparr>)"
      by (simp add: get_pbs_step_id_def)
    then show ?thesis
      by (simp add: run_eq map1)
  qed
  show ?thesis using found exhausted by blast
qed

theorem run_polls_for_step_id_witness:
  "isinstance_QsubBatchStep batch0
   \<and> fst (run env0 state0 batch0) = Inr (Some ''42.job_0'')
   \<and> step_mapping (snd (run env0 state0 batch0)) ''job_0''
       = Some \<lparr>step_id = Some ''42.job_0'', task_id = None, is_managed = True\<rparr>
   \<and> length (filter is_Qstat (history (snd (run env0 state0 batch0)))) = 3
   \<and> fst (run env_never state0 batch0)
       = Inl (LauncherError ''Could not find id of launched job step'')
   \<and> step_mapping (snd (run env_never state0 batch0)) ''job_0'' = None
   \<and> length (filter is_Qstat (history (snd (run env_never state0 batch0)))) = 5"
proof -
  let ?h = "[TaskManagerStart, StartAndWait [''qsub'', ''job_0.sh''] ''/tmp'', Sleep 2]"
  have b: "isinstance_QsubBatchStep batch0" by (simp add: batch0_def)
  have n: "name batch0 = ''job_0''" by (simp add: batch0_def)
  have a: "attempt env0 ''job_0'' 2 ?h k = (if k = 2 then Some ''42.job_0'' else None)" for k
    by (simp add: attempt_def poll_history_def env0_def count_Qstat_rounds) (simp add: is_Qstat_def)
  have a': "attempt env_never ''job_0'' 2 ?h k = None" for k
    by (simp add: attempt_def env_never_def)
  have q: "length (filter is_Qstat (poll_history ?h 2 k)) = k" for k
    by (simp add: poll_history_def count_Qstat_rounds) (simp add: is_Qstat_def)
  note found = run_polls_for_step_id [OF b launch0, THEN conjunct1, rule_format, of 2]
  note lost = run_polls_for_step_id [OF b launch_never, THEN conjunct2, rule_format]
  have r1: "run env0 state0 batch0 =
      (Inr (Some ''42.job_0''),
       \<lparr>actively_monitoring = True,
        step_mapping = (step_mapping state0)(''job_0'' \<mapsto>
           \<lparr>step_id = Some ''42.job_0'', task_id = None, is_managed = True\<rparr>),
        history = poll_history ?h 2 2 @ [Qstat qstat_json_args]\<rparr>)"
    using found by (simp add: n a all_less_2)
  have r2: "run env_never state0 batch0 =
      (Inl (LauncherError ''Could not find id of launched job step''),
       \<lparr>actively_monitoring = True, step_mapping = Map.empty,
        history = poll_history ?h 2 5\<rparr>)"
    using lost by (simp add: n a')
  show ?thesis
    using b by (simp add: r1 r2 q) (simp add: is_Qstat_def state0_def)
qed

text \<open>
  C5. For every batch step, \<open>run\<close> hands the launch command to the blocking
  \<open>start_and_wait\<close>; if the return code is not zero, \<open>run\<close> raises \<open>LauncherError\<close>
  with the message \<open>"Qsub batch submission failed\n {out}\n {err}"\<close>, which contains
  the captured output and error text, nothing else leaves the launcher after the
  submission, and the step mapping is unchanged.
\<close>

theorem run_submission_failure:
  assumes "isinstance_QsubBatchStep stp"
    and "start_and_wait_reply e (history (ensure_monitoring s)) (get_launch_cmd e stp) (cwd stp)
           = (rc, out, err)"
    and "rc \<noteq> 0"
  shows "run e s stp =
           (Inl (LauncherError (''Qsub batch submission failed'' @ [CHR 0x0A] @ '' '' @ out
                                 @ [CHR 0x0A] @ '' '' @ err)),
            emit (StartAndWait (get_launch_cmd e stp) (cwd stp)) (ensure_monitoring s))
         \<and> sublist out (''Qsub batch submission failed'' @ [CHR 0x0A] @ '' '' @ out
                                 @ [CHR 0x0A] @ '' '' @ err)
         \<and> sublist err (''Qsub batch submission failed'' @ [CHR 0x0A] @ '' '' @ out
                                 @ [CHR 0x0A] @ '' '' @ err)
         \<and> step_mapping (snd (run e s stp)) = step_mapping s"
proof -
  have r: "run e s stp =
           (Inl (LauncherError (''Qsub batch submission failed'' @ [CHR 0x0A] @ '' '' @ out
                                 @ [CHR 0x0A] @ '' '' @ err)),
            emit (StartAndWait (get_launch_cmd e stp) (cwd stp)) (ensure_monitoring s))"
    using assms by (simp add: run_def launch_def start_and_wait_def Let_def)
  have m: "step_mapping (emit ev (ensure_monitoring s)) = step_mapping s" for ev
    by (simp add: emit_def ensure_monitoring_def start_def)
  have o: "sublist out (''Qsub batch submission failed'' @ [CHR 0x0A] @ '' '' @ out
                                 @ [CHR 0x0A] @ '' '' @ err)"
    unfolding sublist_def by (metis append.assoc)
  have e: "sublist err (''Qsub batch submission failed'' @ [CHR 0x0A] @ '' '' @ out
                                 @ [CHR 0x0A] @ '' '' @ err)"
    unfolding sublist_def by (metis append.assoc append_Nil2)
  show ?thesis using r m o e by simp
qed

theorem run_submission_failure_witness:
  "isinstance_QsubBatchStep batch0
   \<and> fst (start_and_wait_reply env_rejected (history (ensure_monitoring state0))
            (get_launch_cmd env_rejected batch0) (cwd batch0)) \<noteq> 0
   \<and> fst (run env_rejected state0 batch0)
       = Inl (LauncherError (''Qsub batch submission failed'' @ [CHR 0x0A] @ '' qsub''
                               @ [CHR 0x0A] @ '' Unknown queue''))
   \<and> step_mapping (snd (run env_rejected state0 batch0)) = step_mapping state0"
proof -
  have b: "isinstance_QsubBatchStep batch0" by (simp add: batch0_def)
  have r: "start_and_wait_reply env_rejected (history (ensure_monitoring state0))
            (get_launch_cmd env_rejected batch0) (cwd batch0) = (1, ''qsub'', ''Unknown queue'')"
    by (simp add: env_rejected_def)
  show ?thesis
    using run_submission_failure [OF b r] b r
    by (simp add: emit_def ensure_monitoring_def start_def state0_def)
qed

text \<open>
  C8, as the code has it. For every step that is not a batch step and whose two output
  files can be opened for writing, \<open>run\<close> returns \<open>None\<close>; after the monitoring guard
  it opens the two files and makes the asynchronous \<open>start_task\<close> call, nothing else,
  and it registers under the step's name an unmanaged entry with no step id and the
  task id that \<open>start_task\<close> returned. If opening the output file or the error file
  raises, \<open>run\<close> raises that \<open>OSError\<close> before any task is started and the step
  mapping is unchanged. For every step, a returned identifier other than \<open>None\<close>
  implies that the step is managed.
\<close>

theorem run_direct:
  "(\<not> isinstance_QsubBatchStep stp
      \<and> open_reply e (history (ensure_monitoring s)) (out_path e stp) = None
      \<and> open_reply e (history (ensure_monitoring s) @ [OpenFile (out_path e stp)]) (err_path e stp)
          = None \<longrightarrow>
      fst (run e s stp) = Inr None
      \<and> step_mapping (snd (run e s stp)) =
          (step_mapping s)(name stp \<mapsto>
             \<lparr>step_id = None,
              task_id = Some (start_task_reply e
                                (history (ensure_monitoring s)
                                   @ [OpenFile (out_path e stp), OpenFile (err_path e stp)])
                                (get_launch_cmd e stp) (cwd stp) (out_path e stp) (err_path e stp)),
              is_managed = False\<rparr>)
      \<and> history (snd (run e s stp)) =
          history (ensure_monitoring s) @
            [OpenFile (out_path e stp), OpenFile (err_path e stp),
             StartTask (get_launch_cmd e stp) (cwd stp) (out_path e stp) (err_path e stp)])
   \<and> (\<not> isinstance_QsubBatchStep stp
      \<and> open_reply e (history (ensure_monitoring s)) (out_path e stp) = Some msg \<longrightarrow>
      fst (run e s stp) = Inl (OSError msg)
      \<and> step_mapping (snd (run e s stp)) = step_mapping s
      \<and> history (snd (run e s stp)) =
          history (ensure_monitoring s) @ [OpenFile (out_path e stp)])
   \<and> (\<not> isinstance_QsubBatchStep stp
      \<and> open_reply e (history (ensure_monitoring s)) (out_path e stp) = None
      \<and> open_reply e (history (ensure_monitoring s) @ [OpenFile (out_path e stp)]) (err_path e stp)
          = Some msg \<longrightarrow>
      fst (run e s stp) = Inl (OSError msg)
      \<and> step_mapping (snd (run e s stp)) = step_mapping s
      \<and> history (snd (run e s stp)) =
          history (ensure_monitoring s) @ [OpenFile (out_path e stp), OpenFile (err_path e stp)])
   \<and> (\<forall>sid. fst (run e s stp) = Inr (Some sid) \<longrightarrow> managed stp)"
proof (cases "isinstance_QsubBatchStep stp")
  case True
  then have "managed stp" by (rule batch_managed)
  with True show ?thesis by simp
next
  case False
  then have nm: "\<not> managed stp" by (cases stp) simp_all
  have m: "step_mapping (ensure_monitoring s) = step_mapping s"
    by (rule ensure_monitoring_mapping)
  let ?h = "history (ensure_monitoring s)"
  show ?thesis
  proof (cases "open_reply e ?h (out_path e stp)")
    case (Some msg1)
    with False nm m show ?thesis
      by (simp add: run_def launch_def open_file_def emit_def out_path_def err_path_def
            Let_def case_prod_unfold)
  next
    case None
    show ?thesis
    proof (cases "open_reply e (?h @ [OpenFile (out_path e stp)]) (err_path e stp)")
      case (Some msg2)
      with None False nm m show ?thesis
        by (simp add: run_def launch_def open_file_def emit_def out_path_def err_path_def
              Let_def case_prod_unfold)
    next
      case None2: None
      with None False nm m show ?thesis
        by (simp add: run_def launch_def open_file_def start_task_def add_def emit_def
              out_path_def err_path_def Let_def case_prod_unfold)
    qed
  qed
qed

theorem run_direct_witness:
  "\<not> isinstance_QsubBatchStep direct0
   \<and> open_reply env0 (history (ensure_monitoring state0)) (out_path env0 direct0) = None
   \<and> fst (run env0 state0 direct0) = Inr None
   \<and> step_mapping (snd (run env0 state0 direct0)) ''job_1''
       = Some \<lparr>step_id = None, task_id = Some ''4711'', is_managed = False\<rparr>
   \<and> open_reply env_unwritable (history (ensure_monitoring state0)) (out_path env_unwritable direct0)
       = Some ''No such file or directory''
   \<and> fst (run env_unwritable state0 direct0) = Inl (OSError ''No such file or directory'')
   \<and> step_mapping (snd (run env_unwritable state0 direct0)) = Map.empty
   \<and> fst (run env_err_unwritable state0 direct0) = Inl (OSError ''Permission denied'')
   \<and> step_mapping (snd (run env_err_unwritable state0 direct0)) = Map.empty
   \<and> fst (run env_printed state0 batch0) = Inr (Some ''42.pbs'')
   \<and> managed batch0"
proof -
  have d: "\<not> isinstance_QsubBatchStep direct0" by (simp add: direct0_def)
  have n: "name direct0 = ''job_1''" by (simp add: direct0_def)
  have o: "open_reply env0 h p = None" for h p by (simp add: env0_def)
  have u: "open_reply env_unwritable h p = Some ''No such file or directory''" for h p
    by (simp add: env_unwritable_def)
  have eo: "open_reply env_err_unwritable h (out_path env_err_unwritable direct0) = None" for h
    by (simp add: env_err_unwritable_def env0_def out_path_def direct0_def)
  have ee: "open_reply env_err_unwritable h (err_path env_err_unwritable direct0)
              = Some ''Permission denied''" for h
    by (simp add: env_err_unwritable_def env0_def err_path_def direct0_def)
  have p: "fst (run env_printed state0 batch0) = Inr (Some ''42.pbs'')"
    by (simp add: run_def launch_def ensure_monitoring_def state0_def start_def emit_def
          env_printed_def env0_def batch0_def start_and_wait_def strip_def lstrip_def rstrip_def
          whitespace_def drop_leading.simps)
  from run_direct [of direct0 env0 state0] d o
  have r: "fst (run env0 state0 direct0) = Inr None"
    and m: "step_mapping (snd (run env0 state0 direct0)) ''job_1''
       = Some \<lparr>step_id = None, task_id = Some ''4711'', is_managed = False\<rparr>"
    by (simp_all add: n) (simp add: env0_def)
  from run_direct [of direct0 env_unwritable state0 "''No such file or directory''"] d u
  have f1: "fst (run env_unwritable state0 direct0) = Inl (OSError ''No such file or directory'')"
    and f2: "step_mapping (snd (run env_unwritable state0 direct0)) = Map.empty"
    by (simp_all add: state0_def)
  from run_direct [of direct0 env_err_unwritable state0 "''Permission denied''"] d eo ee
  have g1: "fst (run env_err_unwritable state0 direct0) = Inl (OSError ''Permission denied'')"
    and g2: "step_mapping (snd (run env_err_unwritable state0 direct0)) = Map.empty"
    by (simp_all add: state0_def)
  from run_direct [of batch0 env_printed state0] p have "managed batch0" by blast
  with d r m p o u f1 f2 g1 g2 show ?thesis by simp
qed

text \<open>
  C8, as the claim states it, fails: a direct-run step whose launch directory does not
  exist makes \<open>run\<close> raise \<open>OSError\<close> instead of returning \<open>None\<close>, and no entry is
  registered for it.
\<close>

theorem run_direct_counterexample:
  "\<not> isinstance_QsubBatchStep direct0
   \<and> fst (run env_unwritable state0 direct0) = Inl (OSError ''No such file or directory'')
   \<and> fst (run env_unwritable state0 direct0) \<noteq> Inr None
   \<and> step_mapping (snd (run env_unwritable state0 direct0)) ''job_1'' = None"
  by (simp add: run_def launch_def open_file_def ensure_monitoring_def start_def emit_def
        state0_def direct0_def env_unwritable_def env0_def Let_def)

subsection \<open>get_step_update\<close>

text \<open>
  C3. For every list of step names, \<open>get_step_update\<close> returns first one pair for
  each requested name registered as managed, in request order, then one pair for each
  requested name registered as unmanaged, in request order. The StepInfo paired with a
  managed name is the one that the single batched query gives for the step id of that
  very name. The StepInfo paired with the unmanaged name at position \<open>i\<close> is the task
  manager's update for the task id of that very name, asked for after the updates of
  the unmanaged names before it. For a name registered as managed,
  \<open>get_step_update([name])\<close> is exactly one pair, it carries that name and the
  StepInfo of the query for its step id, and the status string of that StepInfo is one
  of the six canonical status names.
\<close>

theorem get_step_update_order:
  "fst (get_step_update e s ns) =
       map (\<lambda>n. (n, managed_poll e s (map (id_of (step_mapping s) True) (managed_names s ns))
                        (id_of (step_mapping s) True n)))
           (managed_names s ns)
       @ map (\<lambda>i. (unmanaged_names s ns ! i,
                    unmanaged_poll e
                      (history (after_managed s ns)
                         @ map GetTaskUpdate
                             (take i (map (id_of (step_mapping s) False) (unmanaged_names s ns))))
                      (id_of (step_mapping s) False (unmanaged_names s ns ! i))))
             [0..<length (unmanaged_names s ns)]
   \<and> map fst (fst (get_step_update e s ns)) = managed_names s ns @ unmanaged_names s ns
   \<and> (registered (step_mapping s) True n \<longrightarrow>
        fst (get_step_update e s [n]) =
          [(n, managed_poll e s [id_of (step_mapping s) True n] (id_of (step_mapping s) True n))]
        \<and> status (managed_poll e s [id_of (step_mapping s) True n] (id_of (step_mapping s) True n))
            \<in> set canonical_statuses)"
proof -
  let ?m = "step_mapping s"
  let ?un = "unmanaged_names s ns"
  let ?tids = "map (id_of ?m False) ?un"
  let ?h = "history (after_managed s ns)"
  have polls: "zip ?un (fst (get_unmanaged_step_update e (after_managed s ns) ?tids)) =
      map (\<lambda>i. (?un ! i, unmanaged_poll e (?h @ map GetTaskUpdate (take i ?tids))
                           (id_of ?m False (?un ! i))))
        [0..<length ?un]"
  proof -
    have "zip ?un (fst (get_unmanaged_step_update e (after_managed s ns) ?tids)) =
        map (\<lambda>i. (?un ! i, unmanaged_poll e (?h @ map GetTaskUpdate (take i ?tids)) (?tids ! i)))
          [0..<length ?un]"
      using zip_map_upt
              [of ?un "\<lambda>i. unmanaged_poll e (?h @ map GetTaskUpdate (take i ?tids)) (?tids ! i)"]
      by (simp add: get_unmanaged_eq)
    also have "\<dots> = map (\<lambda>i. (?un ! i, unmanaged_poll e (?h @ map GetTaskUpdate (take i ?tids))
                           (id_of ?m False (?un ! i))))
          [0..<length ?un]"
      by (rule map_cong) simp_all
    finally show ?thesis .
  qed
  have all: "fst (get_step_update e s ns) =
       map (\<lambda>n. (n, managed_poll e s (map (id_of ?m True) (managed_names s ns)) (id_of ?m True n)))
           (managed_names s ns)
       @ map (\<lambda>i. (?un ! i, unmanaged_poll e (?h @ map GetTaskUpdate (take i ?tids))
                           (id_of ?m False (?un ! i))))
             [0..<length ?un]"
    using polls
    by (simp add: get_step_update_eq Let_def managed_names_def unmanaged_names_def)
  have names: "map fst (fst (get_step_update e s ns)) = managed_names s ns @ ?un"
    by (simp add: all comp_def map_nth)
  have single: "fst (get_step_update e s [n]) =
          [(n, managed_poll e s [id_of ?m True n] (id_of ?m True n))]
        \<and> status (managed_poll e s [id_of ?m True n] (id_of ?m True n)) \<in> set canonical_statuses"
    if "registered ?m True n"
  proof -
    from that obtain ent where ent: "?m n = Some ent" and "is_managed ent"
      by (auto simp: registered_def split: option.splits)
    then have "fst (get_step_update e s [n]) =
          [(n, managed_poll e s [id_of ?m True n] (id_of ?m True n))]"
      by (simp add: get_step_update_single id_of_def)
    moreover have "status (managed_poll e s [id_of ?m True n] (id_of ?m True n))
        \<in> set canonical_statuses"
      by (simp add: managed_poll_def managed_info_status status_name_canonical)
    ultimately show ?thesis by simp
  qed
  show ?thesis using all names single by blast
qed

theorem get_step_update_order_witness:
  "registered (step_mapping state1) True ''job_0''
   \<and> fst (get_step_update env0 state1 [''job_3'', ''job_1'', ''ghost'', ''job_2'', ''job_0'']) =
       [(''job_2'', \<lparr>status = ''Failed'', returncode = None, output_ref = None, error_ref = None\<rparr>),
        (''job_0'', \<lparr>status = ''Completed'', returncode = Some 0, output_ref = None,
                     error_ref = None\<rparr>),
        (''job_3'', \<lparr>status = ''Running'', returncode = None, output_ref = Some ''job_3.out'',
                     error_ref = Some ''job_3.err''\<rparr>),
        (''job_1'', \<lparr>status = ''Failed'', returncode = Some 1, output_ref = Some ''job_1.out'',
                     error_ref = Some ''job_1.err''\<rparr>)]
   \<and> fst (get_step_update env0 state1 [''job_0'']) =
       [(''job_0'', \<lparr>status = ''Completed'', returncode = Some 0, output_ref = None,
                     error_ref = None\<rparr>)]
   \<and> ''Completed'' \<in> set canonical_statuses"
proof -
  let ?ns = "[''job_3'', ''job_1'', ''ghost'', ''job_2'', ''job_0'']"
  have reg: "registered (step_mapping state1) True ''job_0''"
    by (simp add: registered_def state1_def registry0_simps)
  have mn: "managed_names state1 ?ns = [''job_2'', ''job_0'']"
    and un: "unmanaged_names state1 ?ns = [''job_3'', ''job_1'']"
    by (simp_all add: managed_names_def unmanaged_names_def registered_def state1_def
          registry0_simps)
  have upt2: "[0..<2] = [0, Suc 0]" by (simp add: upt_rec numeral_2_eq_2)
  from get_step_update_order [of env0 state1 ?ns "''job_0''"] reg
  have every: "fst (get_step_update env0 state1 ?ns) =
       [(''job_2'', \<lparr>status = ''Failed'', returncode = None, output_ref = None, error_ref = None\<rparr>),
        (''job_0'', \<lparr>status = ''Completed'', returncode = Some 0, output_ref = None,
                     error_ref = None\<rparr>),
        (''job_3'', \<lparr>status = ''Running'', returncode = None, output_ref = Some ''job_3.out'',
                     error_ref = Some ''job_3.err''\<rparr>),
        (''job_1'', \<lparr>status = ''Failed'', returncode = Some 1, output_ref = Some ''job_1.out'',
                     error_ref = Some ''job_1.err''\<rparr>)]"
    and one: "fst (get_step_update env0 state1 [''job_0'']) =
       [(''job_0'', managed_poll env0 state1 [id_of (step_mapping state1) True ''job_0'']
                      (id_of (step_mapping state1) True ''job_0''))]"
    and can: "status (managed_poll env0 state1 [id_of (step_mapping state1) True ''job_0'']
                      (id_of (step_mapping state1) True ''job_0'')) \<in> set canonical_statuses"
    by (simp_all add: mn un upt2)
       (simp add: managed_poll_def unmanaged_poll_def managed_info_def PBSStepInfo_def
          UnmanagedStepInfo_def STATUS_COMPLETED_def id_of_def state1_def registry0_simps
          env0_def Let_def)
  have val: "managed_poll env0 state1 [id_of (step_mapping state1) True ''job_0'']
                      (id_of (step_mapping state1) True ''job_0'') =
        \<lparr>status = ''Completed'', returncode = Some 0, output_ref = None, error_ref = None\<rparr>"
    by (simp add: managed_poll_def managed_info_def PBSStepInfo_def STATUS_COMPLETED_def
          id_of_def state1_def registry0_simps env0_def Let_def)
  from can have "''Completed'' \<in> set canonical_statuses" by (simp add: val)
  with reg every one show ?thesis by (simp add: val)
qed

text \<open>
  C4. \<open>_get_managed_step_update\<close> returns one StepInfo per step id, and wherever the
  parser reports the job as no longer present in the scheduler's history, that
  StepInfo has status \<open>Completed\<close> and return code 0 (and no output references). The
  same holds for the poll of a single managed name through \<open>get_step_update\<close>.
\<close>

theorem managed_not_in_history:
  "length (fst (get_managed_step_update e s step_ids)) = length step_ids
   \<and> (\<forall>i<length step_ids.
        parse_qstat_jobid e (fst (qstat_reply e (history s) step_ids)) (str (step_ids ! i))
          = NotInHistory \<longrightarrow>
        fst (get_managed_step_update e s step_ids) ! i =
          \<lparr>status = ''Completed'', returncode = Some 0, output_ref = None, error_ref = None\<rparr>)
   \<and> (\<forall>ent. step_mapping s n = Some ent \<and> is_managed ent
          \<and> parse_qstat_jobid e (fst (qstat_reply e (history s) [step_id ent])) (str (step_id ent))
              = NotInHistory \<longrightarrow>
        fst (get_step_update e s [n]) =
          [(n, \<lparr>status = ''Completed'', returncode = Some 0, output_ref = None, error_ref = None\<rparr>)])"
  by (simp add: get_managed_step_update_eq managed_poll_def managed_info_not_in_history
        get_step_update_single)

theorem managed_not_in_history_witness:
  "(0::nat) < length [Some ''42'']
   \<and> parse_qstat_jobid env0 (fst (qstat_reply env0 (history state1) [Some ''42''])) (str (Some ''42''))
        = NotInHistory
   \<and> fst (get_managed_step_update env0 state1 [Some ''42'']) ! 0 =
        \<lparr>status = ''Completed'', returncode = Some 0, output_ref = None, error_ref = None\<rparr>
   \<and> step_mapping state1 ''job_0'' = Some \<lparr>step_id = Some ''42'', task_id = None, is_managed = True\<rparr>
   \<and> fst (get_step_update env0 state1 [''job_0'']) =
       [(''job_0'', \<lparr>status = ''Completed'', returncode = Some 0, output_ref = None, error_ref = None\<rparr>)]"
proof -
  have p: "parse_qstat_jobid env0 (fst (qstat_reply env0 (history state1) [Some ''42''])) (str (Some ''42''))
        = NotInHistory"
    by (simp add: env0_def)
  have m: "step_mapping state1 ''job_0'' = Some \<lparr>step_id = Some ''42'', task_id = None, is_managed = True\<rparr>"
    by (simp add: state1_def registry0_simps)
  from managed_not_in_history [of env0 state1 "[Some ''42'']" "''job_0''"] p m
  show ?thesis by simp
qed

text \<open>
  C9. In the result of \<open>get_step_update\<close>, every pair whose name is registered as
  managed has return code 0 if its status is \<open>Completed\<close> and return code \<open>None\<close> for
  every other status, and it has no output references.
\<close>

theorem managed_returncode:
  "\<forall>(n, info) \<in> set (fst (get_step_update e s ns)).
      registered (step_mapping s) True n \<longrightarrow>
        returncode info = (if status info = ''Completed'' then Some 0 else None)
        \<and> output_ref info = None \<and> error_ref info = None"
proof -
  let ?m = "step_mapping s"
  have "returncode info = (if status info = ''Completed'' then Some 0 else None)
        \<and> output_ref info = None \<and> error_ref info = None"
    if mem: "(n, info) \<in> set (fst (get_step_update e s ns))" and reg: "registered ?m True n"
    for n info
  proof -
    from reg have "\<not> registered ?m False n"
      by (auto simp: registered_def split: option.splits)
    then have "(n, info) \<notin> set (zip (filter (registered ?m False) ns) xs)" for xs
      by (auto dest: set_zip_leftD)
    with mem obtain stat where "info = managed_info e stat"
      by (auto simp: get_step_update_eq Let_def managed_poll_def)
    then show ?thesis
      using managed_info_returncode [of e stat] managed_info_refs [of e stat] by simp
  qed
  then show ?thesis by blast
qed

theorem managed_returncode_witness:
  "(''job_2'', \<lparr>status = ''Failed'', returncode = None, output_ref = None, error_ref = None\<rparr>)
      \<in> set (fst (get_step_update env0 state1 [''job_1'', ''ghost'', ''job_2'', ''job_0'']))
   \<and> registered (step_mapping state1) True ''job_2''
   \<and> returncode \<lparr>status = ''Failed'', returncode = None, output_ref = None, error_ref = None\<rparr>
        = (if status \<lparr>status = ''Failed'', returncode = None, output_ref = None, error_ref = None\<rparr>
              = ''Completed'' then Some 0 else None)"
proof -
  let ?info = "\<lparr>status = ''Failed'', returncode = None, output_ref = None, error_ref = None\<rparr>"
  have mem: "(''job_2'', ?info)
      \<in> set (fst (get_step_update env0 state1 [''job_1'', ''ghost'', ''job_2'', ''job_0'']))"
    by (simp add: poll0)
  have reg: "registered (step_mapping state1) True ''job_2''"
    by (simp add: registered_def state1_def registry0_simps)
  from managed_returncode [of env0 state1 "[''job_1'', ''ghost'', ''job_2'', ''job_0'']"] mem reg
  have "returncode ?info = (if status ?info = ''Completed'' then Some 0 else None)"
    by blast
  with mem reg show ?thesis by blast
qed

subsection \<open>stop\<close>

text \<open>
  C2. For every registered step name, \<open>stop\<close> returns a StepInfo, never an exception,
  whatever \<open>qdel\<close> and the poll answer, and the status of that StepInfo is
  \<open>Cancelled\<close>. When the entry is managed and \<open>qdel\<close> exits with a non-zero code, the
  warning \<open>"Unable to cancel job step {step_name}\n {err}"\<close> is in the log.
\<close>

theorem stop_cancelled:
  assumes "step_mapping s nm = Some ent"
  shows "(\<exists>info s'. stop e s nm = (Inr info, s') \<and> status info = ''Cancelled'')
         \<and> (is_managed ent \<and> fst (qdel_reply e (history s) [str (step_id ent)]) \<noteq> 0 \<longrightarrow>
              LogWarning (''Unable to cancel job step '' @ nm @ [CHR 0x0A] @ '' ''
                           @ snd (snd (qdel_reply e (history s) [str (step_id ent)])))
                \<in> set (history (snd (stop e s nm))))"
proof -
  have ret: "\<exists>info s'. stop e s nm = (Inr info, s') \<and> status info = ''Cancelled''"
    using stop_eq [OF assms, of e] by simp
  have hist_cancel: "set (history s0) \<subseteq> set (history (snd (get_step_update e s0 [nm])))"
    if "step_mapping s0 nm = Some ent" for s0
    using get_step_update_single [OF that, of e] by (auto simp: emit_def)
  have warn: "LogWarning (''Unable to cancel job step '' @ nm @ [CHR 0x0A] @ '' ''
                           @ snd (snd (qdel_reply e (history s) [str (step_id ent)])))
                \<in> set (history (cancel e s nm ent))"
    if "is_managed ent" and "fst (qdel_reply e (history s) [str (step_id ent)]) \<noteq> 0"
    using that
    by (simp add: cancel_def qdel_def remove_task_def emit_def Let_def case_prod_unfold)
  have "step_mapping (cancel e s nm ent) nm = Some ent"
    using assms by (simp add: cancel_mapping)
  from hist_cancel [OF this] warn stop_eq [OF assms, of e] ret
  show ?thesis by auto
qed

theorem stop_cancelled_witness:
  "step_mapping state1 ''job_0'' = Some \<lparr>step_id = Some ''42'', task_id = None, is_managed = True\<rparr>
   \<and> fst (qdel_reply env0 (history state1) [str (Some ''42'')]) \<noteq> 0
   \<and> fst (stop env0 state1 ''job_0'') =
       Inr \<lparr>status = ''Cancelled'', returncode = Some 0, output_ref = None, error_ref = None\<rparr>
   \<and> LogWarning (''Unable to cancel job step job_0'' @ [CHR 0x0A] @ '' qdel: Unknown Job Id'')
        \<in> set (history (snd (stop env0 state1 ''job_0'')))"
proof -
  have m: "step_mapping state1 ''job_0'' = Some \<lparr>step_id = Some ''42'', task_id = None, is_managed = True\<rparr>"
    by (simp add: state1_def registry0_simps)
  have q: "fst (qdel_reply env0 (history state1) [str (Some ''42'')]) \<noteq> 0"
    by (simp add: env0_def)
  have r: "fst (stop env0 state1 ''job_0'') =
       Inr \<lparr>status = ''Cancelled'', returncode = Some 0, output_ref = None, error_ref = None\<rparr>"
    by (simp add: stop_def getitem_def cancel_def qdel_def state1_def registry0_simps
          get_step_update_def get_managed_step_update_def
          qstat_def emit_def managed_info_def PBSStepInfo_def STATUS_COMPLETED_def env0_def Let_def)
  from stop_cancelled [OF m, of env0] q
  have "LogWarning (''Unable to cancel job step job_0'' @ [CHR 0x0A] @ '' qdel: Unknown Job Id'')
        \<in> set (history (snd (stop env0 state1 ''job_0'')))"
    by (simp add: env0_def)
  with m q r show ?thesis by simp
qed

text \<open>
  C10. For every registered step name, the poll that \<open>stop\<close> makes after the
  cancellation returns exactly one pair, and the StepInfo that \<open>stop\<close> returns is that
  pair's StepInfo with the status set to \<open>Cancelled\<close>: the return code and both
  output references are those of the poll.
\<close>

theorem stop_frame:
  assumes "step_mapping s nm = Some ent"
  shows "\<exists>info s'. get_step_update e (cancel e s nm ent) [nm] = ([(nm, info)], s')
           \<and> stop e s nm = (Inr (info\<lparr>status := ''Cancelled''\<rparr>), s')
           \<and> (\<forall>r. fst (stop e s nm) = Inr r \<longrightarrow>
                 returncode r = returncode info \<and> output_ref r = output_ref info
                 \<and> error_ref r = error_ref info \<and> r = info\<lparr>status := ''Cancelled''\<rparr>)"
proof -
  from stop_eq [OF assms, of e] obtain info where
    one: "fst (get_step_update e (cancel e s nm ent) [nm]) = [(nm, info)]"
    and st: "stop e s nm = (Inr (info\<lparr>status := ''Cancelled''\<rparr>),
                            snd (get_step_update e (cancel e s nm ent) [nm]))"
    by auto
  from one have "get_step_update e (cancel e s nm ent) [nm] =
      ([(nm, info)], snd (get_step_update e (cancel e s nm ent) [nm]))"
    by (simp add: prod_eq_iff)
  with st show ?thesis by auto
qed

theorem stop_frame_witness:
  "step_mapping state1 ''job_1'' = Some \<lparr>step_id = None, task_id = Some ''7'', is_managed = False\<rparr>
   \<and> fst (get_step_update env0
            (cancel env0 state1 ''job_1'' \<lparr>step_id = None, task_id = Some ''7'', is_managed = False\<rparr>)
            [''job_1'']) =
       [(''job_1'', \<lparr>status = ''Failed'', returncode = Some 1, output_ref = Some ''job_1.out'',
                    error_ref = Some ''job_1.err''\<rparr>)]
   \<and> fst (stop env0 state1 ''job_1'') =
       Inr \<lparr>status = ''Cancelled'', returncode = Some 1, output_ref = Some ''job_1.out'',
            error_ref = Some ''job_1.err''\<rparr>"
proof -
  let ?ent = "\<lparr>step_id = None, task_id = Some ''7'', is_managed = False\<rparr>"
  have m: "step_mapping state1 ''job_1'' = Some ?ent"
    by (simp add: state1_def registry0_simps)
  have p: "fst (get_step_update env0 (cancel env0 state1 ''job_1'' ?ent) [''job_1'']) =
       [(''job_1'', \<lparr>status = ''Failed'', returncode = Some 1, output_ref = Some ''job_1.out'',
                    error_ref = Some ''job_1.err''\<rparr>)]"
    by (simp add: cancel_def remove_task_def state1_def registry0_simps
          get_step_update_def emit_def UnmanagedStepInfo_def get_task_update_def env0_def Let_def)
  from stop_frame [OF m, of env0] p
  have "fst (stop env0 state1 ''job_1'') =
       Inr \<lparr>status = ''Cancelled'', returncode = Some 1, output_ref = Some ''job_1.out'',
            error_ref = Some ''job_1.err''\<rparr>"
    by auto
  with m p show ?thesis by simp
qed

subsection \<open>create_step\<close>

text \<open>
  C6, as the code has it. \<open>create_step\<close> fails at once, with an exception and without
  a step, for every settings object whose class is none of \<open>AprunSettings\<close>,
  \<open>QsubBatchSettings\<close> and \<open>MpirunSettings\<close>. For a settings object of one of these
  classes whose step constructor raises the configuration error \<open>SSConfigError\<close>,
  \<open>create_step\<close> raises \<open>LauncherError\<close> with the message
  \<open>"Job step creation failed: "\<close> followed by the configuration error's message, and
  no step is returned.
\<close>

theorem create_step_errors:
  "(kind st \<notin> {AprunSettings, QsubBatchSettings, MpirunSettings} \<longrightarrow>
      (\<exists>ex. create_step e nm dir st = Inl ex))
   \<and> (kind st \<in> {AprunSettings, QsubBatchSettings, MpirunSettings}
        \<and> step_init_error e nm dir st = Some (SSConfigError msg) \<longrightarrow>
      create_step e nm dir st = Inl (LauncherError (''Job step creation failed: '' @ msg)))"
  by (auto simp: create_step_def new_step_def)

theorem create_step_errors_witness:
  "kind (settings0 SrunSettings) \<notin> {AprunSettings, QsubBatchSettings, MpirunSettings}
   \<and> (\<exists>ex. create_step env0 ''model'' ''/tmp'' (settings0 SrunSettings) = Inl ex)
   \<and> kind \<lparr>kind = AprunSettings, params = []\<rparr> \<in> {AprunSettings, QsubBatchSettings, MpirunSettings}
   \<and> step_init_error env0 ''model'' ''/tmp'' \<lparr>kind = AprunSettings, params = []\<rparr>
       = Some (SSConfigError ''no launch parameters'')
   \<and> create_step env0 ''model'' ''/tmp'' \<lparr>kind = AprunSettings, params = []\<rparr>
       = Inl (LauncherError ''Job step creation failed: no launch parameters'')"
proof -
  have k1: "kind (settings0 SrunSettings) \<notin> {AprunSettings, QsubBatchSettings, MpirunSettings}"
    by (simp add: settings0_def)
  have k2: "kind \<lparr>kind = AprunSettings, params = []\<rparr> \<in> {AprunSettings, QsubBatchSettings, MpirunSettings}"
    by simp
  have i: "step_init_error env0 ''model'' ''/tmp'' \<lparr>kind = AprunSettings, params = []\<rparr>
       = Some (SSConfigError ''no launch parameters'')"
    by (simp add: env0_def)
  from create_step_errors [of "settings0 SrunSettings" env0 "''model''" "''/tmp''"] k1
  have a: "\<exists>ex. create_step env0 ''model'' ''/tmp'' (settings0 SrunSettings) = Inl ex"
    by blast
  from create_step_errors
         [of "\<lparr>kind = AprunSettings, params = []\<rparr>" env0 "''model''" "''/tmp''" "''no launch parameters''"]
       k2 i
  have b: "create_step env0 ''model'' ''/tmp'' \<lparr>kind = AprunSettings, params = []\<rparr>
       = Inl (LauncherError ''Job step creation failed: no launch parameters'')"
    by simp
  from k1 a k2 i b show ?thesis by blast
qed

text \<open>
  C6, as the claim states it, fails: a supported settings object that the step class
  rejects with a configuration error makes \<open>create_step\<close> raise \<open>LauncherError\<close>, not
  the configuration error.
\<close>

theorem create_step_config_counterexample:
  "create_step env0 ''model'' ''/tmp'' \<lparr>kind = AprunSettings, params = []\<rparr>
     = Inl (LauncherError ''Job step creation failed: no launch parameters'')
   \<and> create_step env0 ''model'' ''/tmp'' \<lparr>kind = AprunSettings, params = []\<rparr>
     \<noteq> Inl (SSConfigError ''no launch parameters'')"
  by (simp add: create_step_def new_step_def env0_def)

end
